theory Spec2Isabelle
  imports Main "HOL-Library.Word"
begin

unbundle bit_operations_syntax

section \<open>Machine integers of the Go program (linux/amd64)\<close>

text \<open>
  The file \<^verbatim>\<open>cmd/time_check.go\<close> is built for Linux only. Go's \<^verbatim>\<open>int64\<close>,
  \<^verbatim>\<open>int32\<close> and \<^verbatim>\<open>uint32\<close> are words: \<open>+\<close>, \<open>-\<close> and \<open>*\<close> wrap around, as the Go
  language defines for signed integers; \<open>sint\<close> reads the two's complement value and
  \<open><s\<close> is the signed comparison.
\<close>

type_synonym int64 = "64 word"
type_synonym int32 = "32 word"
type_synonym uint32 = "32 word"
type_synonym uint64 = "64 word"

section \<open>Package time of the Go standard library\<close>

text \<open>
  \<^verbatim>\<open>type Duration int64\<close>, a count of nanoseconds, with the constants
  \<^verbatim>\<open>Nanosecond Duration = 1\<close>, \<^verbatim>\<open>Microsecond = 1000 * Nanosecond\<close>,
  \<^verbatim>\<open>Millisecond = 1000 * Microsecond\<close>, \<^verbatim>\<open>Second = 1000 * Millisecond\<close>.
  The package is not part of the repository; it is the standard library that
  \<^verbatim>\<open>time_check.go\<close> imports.
\<close>

type_synonym Duration = int64

definition Nanosecond :: Duration where
  "Nanosecond = 1"

definition Microsecond :: Duration where
  "Microsecond = 1000 * Nanosecond"

definition Millisecond :: Duration where
  "Millisecond = 1000 * Microsecond"

definition Second :: Duration where
  "Second = 1000 * Millisecond"

text \<open>
  \<^verbatim>\<open>fmtInt(buf, v)\<close> writes the decimal digits of \<open>v\<close> in front of the tail of the
  buffer already written; \<^verbatim>\<open>byte(v%10) + '0'\<close> is the digit's character. The buffer
  is filled from its end, so the model holds the written tail and prepends.
\<close>

definition digit :: "uint64 \<Rightarrow> char" where
  "digit d = char_of (unat d + 48)"

function fmtInt_loop :: "string \<Rightarrow> uint64 \<Rightarrow> string" where
  "fmtInt_loop buf v = (if 0 < v then fmtInt_loop (digit (v mod 10) # buf) (v div 10) else buf)"
  by pat_completeness auto
termination
proof (relation "measure (\<lambda>(buf, v). unat v)")
  show "wf (measure (\<lambda>(buf, v). unat v))" by simp
next
  fix buf :: string and v :: uint64
  assume "0 < v"
  then have "0 < unat v" by (simp add: word_less_nat_alt)
  then have "unat v div 10 < unat v" by simp
  then show "((digit (v mod 10) # buf, v div 10), (buf, v)) \<in> measure (\<lambda>(buf, v). unat v)"
    by (simp add: unat_div)
qed

declare fmtInt_loop.simps [simp del]

definition fmtInt :: "string \<Rightarrow> uint64 \<Rightarrow> string" where
  "fmtInt buf v = (if v = 0 then CHR ''0'' # buf else fmtInt_loop buf v)"

text \<open>
  \<^verbatim>\<open>fmtFrac(buf, v, prec)\<close> writes the fraction of \<open>v / 10^prec\<close> without trailing
  zeros, and without the decimal point when the fraction is 0; it returns the buffer
  and \<open>v / 10^prec\<close>. The loop runs \<open>prec\<close> times with the flag \<^verbatim>\<open>print\<close>.
\<close>

fun fmtFrac_loop :: "nat \<Rightarrow> bool \<Rightarrow> string \<Rightarrow> uint64 \<Rightarrow> bool \<times> string \<times> uint64" where
  "fmtFrac_loop 0 prt buf v = (prt, buf, v)"
| "fmtFrac_loop (Suc n) prt buf v =
     (let dg = v mod 10;
          prt' = (prt \<or> dg \<noteq> 0);
          buf' = (if prt' then digit dg # buf else buf)
      in fmtFrac_loop n prt' buf' (v div 10))"

definition fmtFrac :: "string \<Rightarrow> uint64 \<Rightarrow> nat \<Rightarrow> string \<times> uint64" where
  "fmtFrac buf v prec =
     (case fmtFrac_loop prec False buf v of
        (prt, buf', v') \<Rightarrow> (if prt then CHR ''.'' # buf' else buf', v'))"

text \<open>
  \<^verbatim>\<open>func (d Duration) String() string\<close>: below one second the unit is ns, \<open>\<mu>s\<close>
  (the micro sign is the two bytes C2 B5 of its UTF-8 encoding) or ms; from one second
  on the form is \<^verbatim>\<open>72h3m0.5s\<close>. \<^verbatim>\<open>u := uint64(d); if neg { u = -u }\<close>.
\<close>

definition Duration_String :: "Duration \<Rightarrow> string" where
  "Duration_String d =
     (let neg = d <s 0;
          u = (if neg then - d else d)
      in if u < Second then
           (if u = 0 then ''0s''
            else
              let (buf0, prec) =
                    (if u < Microsecond then (''ns'', 0)
                     else if u < Millisecond then ([CHR 0xC2, CHR 0xB5, CHR ''s''], 3)
                     else (''ms'', 6));
                  (buf1, u1) = fmtFrac buf0 u prec;
                  buf2 = fmtInt buf1 u1
              in if neg then CHR ''-'' # buf2 else buf2)
         else
           (let (buf1, u1) = fmtFrac ''s'' u 9;
                buf2 = fmtInt buf1 (u1 mod 60);
                u2 = u1 div 60;
                buf3 =
                  (if 0 < u2 then
                     (let buf4 = fmtInt (CHR ''m'' # buf2) (u2 mod 60);
                          u3 = u2 div 60
                      in if 0 < u3 then fmtInt (CHR ''h'' # buf4) u3 else buf4)
                   else buf2)
            in if neg then CHR ''-'' # buf3 else buf3))"

section \<open>Errors\<close>

text \<open>
  A Go \<^verbatim>\<open>error\<close> is \<^verbatim>\<open>nil\<close> (\<open>None\<close>) or a value with a text, \<^verbatim>\<open>Error()\<close>.
  \<^verbatim>\<open>errors.Wrap(err, message)\<close> of \<^verbatim>\<open>github.com/pkg/errors\<close> returns \<^verbatim>\<open>nil\<close> for a
  \<^verbatim>\<open>nil\<close> error, and otherwise an error that keeps \<^verbatim>\<open>err\<close> as its cause and whose
  text is \<^verbatim>\<open>message + ": " + err.Error()\<close>. (The stack trace it also records has no
  part in the text and is left out.)
\<close>

datatype error = errorString string | withMessage error string

fun Error :: "error \<Rightarrow> string" where
  "Error (errorString s) = s"
| "Error (withMessage cause msg) = msg @ '': '' @ Error cause"

fun Cause :: "error \<Rightarrow> error" where
  "Cause (errorString s) = errorString s"
| "Cause (withMessage cause msg) = Cause cause"

definition Wrap :: "error option \<Rightarrow> string \<Rightarrow> error option" where
  "Wrap err message = (case err of None \<Rightarrow> None | Some e \<Rightarrow> Some (withMessage e message))"

section \<open>The kernel's record: \<^verbatim>\<open>syscall.Timex\<close>\<close>

text \<open>
  The fields of \<^verbatim>\<open>syscall.Timex\<close> and \<^verbatim>\<open>syscall.Timeval\<close> on linux/amd64 (the padding
  bytes left out). \<^verbatim>\<open>syscall.Timex{}\<close> is the zero value.
\<close>

record Timeval =
  Sec :: int64
  Usec :: int64

record Timex =
  Modes :: uint32
  Offset :: int64
  Freq :: int64
  Maxerror :: int64
  Esterror :: int64
  Status :: int32
  Constant :: int64
  Precision :: int64
  Tolerance :: int64
  Time :: Timeval
  Tick :: int64
  Ppsfreq :: int64
  Jitter :: int64
  Shift :: int32
  Stabil :: int64
  Jitcnt :: int64
  Calcnt :: int64
  Errcnt :: int64
  Stbcnt :: int64
  Tai :: int32

definition Timex_zero :: Timex where
  "Timex_zero =
     \<lparr>Modes = 0, Offset = 0, Freq = 0, Maxerror = 0, Esterror = 0, Status = 0,
      Constant = 0, Precision = 0, Tolerance = 0, Time = \<lparr>Sec = 0, Usec = 0\<rparr>,
      Tick = 0, Ppsfreq = 0, Jitter = 0, Shift = 0, Stabil = 0, Jitcnt = 0,
      Calcnt = 0, Errcnt = 0, Stbcnt = 0, Tai = 0\<rparr>"

section \<open>The check: \<^verbatim>\<open>cmd/time_check.go\<close>\<close>

text \<open>
  Modelled from the spec: the constants \<^verbatim>\<open>statusOK\<close>, \<^verbatim>\<open>statusFailure\<close> and
  \<^verbatim>\<open>statusUnknown\<close> that \<^verbatim>\<open>Run\<close> returns are declared in another file of package
  \<^verbatim>\<open>cmd\<close>; the spec gives the verdict as one of three mutually exclusive outcomes,
  OK, Failure and Unknown.
\<close>

datatype status = statusOK | statusFailure | statusUnknown

text \<open>\<^verbatim>\<open>staUnsync = 0x0040\<close>, the kernel's \<^verbatim>\<open>STA_UNSYNC\<close>.\<close>

definition staUnsync :: int32 where
  "staUnsync = 0x0040"

text \<open>
  \<^verbatim>\<open>maxEstErrorUs = int64(time.Microsecond * 100000)\<close>, under the comment
  \<^verbatim>\<open>// 100 millisecond\<close>.
\<close>

definition maxEstErrorUs :: int64 where
  "maxEstErrorUs = Microsecond * 100000"

text \<open>
  \<^verbatim>\<open>type TimeCheck struct { Name string; runAdjtimex func(*syscall.Timex) (int, error) }\<close>.
  The injected function fills the buffer it is given a pointer to: the model passes
  the buffer in and gets the filled buffer back, with the call's \<^verbatim>\<open>int\<close> and error.
\<close>

record TimeCheck =
  Name :: string
  runAdjtimex :: "Timex \<Rightarrow> Timex \<times> int64 \<times> error option"

definition ID :: "TimeCheck \<Rightarrow> string" where
  "ID t = Name t"

text \<open>
  \<^verbatim>\<open>func (t *TimeCheck) Run(ctx context.Context, cfg *CLIConfigFlags) (string, int, error)\<close>.
  \<^verbatim>\<open>fmt.Sprintf\<close> with the verb \<^verbatim>\<open>%s\<close> writes a \<^verbatim>\<open>Duration\<close> through its
  \<^verbatim>\<open>String\<close> method. \<^verbatim>\<open>Esterror\<close> is an \<^verbatim>\<open>int64\<close> already, so the conversion
  \<^verbatim>\<open>int64(tBuf.Esterror)\<close> changes nothing; the subtraction, the multiplication and
  both comparisons with 0 are those of signed machine integers.
\<close>

definition Run :: "TimeCheck \<Rightarrow> 'ctx \<Rightarrow> 'cfg \<Rightarrow> string \<times> status \<times> error option" where
  "Run t ctx cfg =
     (case runAdjtimex t Timex_zero of
        (tBuf, _, err) \<Rightarrow>
          (case err of
             Some e \<Rightarrow>
               ('''', statusUnknown, Wrap (Some e) ''unable to make a system call adjtimex'')
           | None \<Rightarrow>
               (let diff = Esterror tBuf - maxEstErrorUs
                in if 0 <s diff then
                     (''Clock is less stable than allowed. Max estimated error exceeded by: ''
                        @ Duration_String (diff * Microsecond),
                      statusFailure, None)
                   else if 0 <s (Status tBuf AND staUnsync) then
                     (''Clock is out of sync / in unsync state. Must be synchronized for proper operation.'',
                      statusFailure, None)
                   else (''Clock is synced'', statusOK, None))))"

text \<open>
  \<^verbatim>\<open>NewTimeCheck(name)\<close> binds \<^verbatim>\<open>runAdjtimex\<close> to \<^verbatim>\<open>syscall.Adjtimex\<close>, the system
  call itself; the model takes the call as a parameter.
\<close>

definition NewTimeCheck :: "(Timex \<Rightarrow> Timex \<times> int64 \<times> error option) \<Rightarrow> string \<Rightarrow> TimeCheck" where
  "NewTimeCheck Adjtimex name = \<lparr>Name = name, runAdjtimex = Adjtimex\<rparr>"

text \<open>
  A stand-in for the system call, as a test injects one: it stores a given record in
  the buffer and returns a given \<^verbatim>\<open>int\<close> and error. \<open>snapshot e s\<close> is the zero
  record with \<^verbatim>\<open>Esterror\<close> and \<^verbatim>\<open>Status\<close> set.
\<close>

definition stubAdjtimex :: "Timex \<Rightarrow> int64 \<Rightarrow> error option \<Rightarrow> Timex \<Rightarrow> Timex \<times> int64 \<times> error option" where
  "stubAdjtimex filled n err buf = (filled, n, err)"

definition snapshot :: "int64 \<Rightarrow> int32 \<Rightarrow> Timex" where
  "snapshot e s = Timex_zero\<lparr>Esterror := e, Status := s\<rparr>"

section \<open>Arithmetic of the two tests\<close>

lemma maxEstErrorUs_numeral: "maxEstErrorUs = 100000000"
  by (simp add: maxEstErrorUs_def Microsecond_def Nanosecond_def)

lemma sint_maxEstErrorUs: "sint maxEstErrorUs = 100000000"
  by (simp add: maxEstErrorUs_numeral)

lemma sint_int64_range: "- (2 ^ 63) \<le> sint (e :: int64) \<and> sint e < 2 ^ 63"
  using sint_ge [of e] sint_lt [of e] by simp

text \<open>The subtraction \<^verbatim>\<open>int64(tBuf.Esterror) - maxEstErrorUs\<close> is exact unless it wraps.\<close>

lemma sint_diff_nowrap:
  assumes "- (2 ^ 63) \<le> sint e - sint maxEstErrorUs"
  shows "sint (e - maxEstErrorUs) = sint e - sint maxEstErrorUs"
proof -
  have "sint e < 2 ^ 63" using sint_int64_range by blast
  then have up: "sint e - sint maxEstErrorUs < 2 ^ 63" by (simp add: sint_maxEstErrorUs)
  have "sint (e - maxEstErrorUs) = signed_take_bit 63 (sint e - sint maxEstErrorUs)"
    by (simp add: sint_word_ariths)
  also have "\<dots> = sint e - sint maxEstErrorUs"
    using assms up by (simp add: signed_take_bit_int_eq_self)
  finally show ?thesis .
qed

lemma signed_take_bit_63_wrap:
  fixes k :: int
  assumes "- (2 ^ 64) \<le> k" and "k < - (2 ^ 63)"
  shows "signed_take_bit 63 k = k + 2 ^ 64"
proof -
  have "(k + 2 ^ 63) mod 2 ^ 64 = (k + 2 ^ 63 + 2 ^ 64) mod 2 ^ 64"
    by (rule mod_add_self2 [symmetric])
  also have "\<dots> = k + 2 ^ 63 + 2 ^ 64"
    using assms by (intro mod_pos_pos_trivial) simp_all
  finally have "(k + 2 ^ 63) mod 2 ^ 64 = k + 2 ^ 63 + 2 ^ 64" .
  then show ?thesis
    by (simp add: signed_take_bit_eq_take_bit_shift take_bit_eq_mod)
qed

lemma sint_diff_wrap:
  assumes "sint e - sint maxEstErrorUs < - (2 ^ 63)"
  shows "sint (e - maxEstErrorUs) = sint e - sint maxEstErrorUs + 2 ^ 64"
proof -
  have "- (2 ^ 63) \<le> sint e" using sint_int64_range by blast
  then have low: "- (2 ^ 64) \<le> sint e - sint maxEstErrorUs"
    by (simp add: sint_maxEstErrorUs)
  have "sint (e - maxEstErrorUs) = signed_take_bit 63 (sint e - sint maxEstErrorUs)"
    by (simp add: sint_word_ariths)
  also have "\<dots> = sint e - sint maxEstErrorUs + 2 ^ 64"
    using low assms by (rule signed_take_bit_63_wrap)
  finally show ?thesis .
qed

text \<open>
  The test \<^verbatim>\<open>(tBuf.Status & staUnsync) > 0\<close> compares an \<^verbatim>\<open>int32\<close>; bit 6 is not the
  sign bit, so the test holds exactly when the bit is set.
\<close>

lemma unsync_bit: "(s AND staUnsync \<noteq> 0) = bit s 6"
  using and_exp_eq_0_iff_not_bit [of s 6] by (simp add: staUnsync_def)

lemma sint_AND_staUnsync: "sint (s AND staUnsync) = uint (s AND staUnsync)"
proof -
  have "s AND staUnsync \<le> staUnsync" by (rule word_and_le1)
  then have le: "uint (s AND staUnsync) \<le> 64"
    by (simp add: word_le_def staUnsync_def)
  have lo: "- (2 ^ 31) \<le> uint (s AND staUnsync)"
    by (rule order_trans [OF _ uint_nonnegative]) simp
  have hi: "uint (s AND staUnsync) < 2 ^ 31"
    using le by simp
  have "signed_take_bit 31 (uint (s AND staUnsync)) = uint (s AND staUnsync)"
    using lo hi by (rule signed_take_bit_int_eq_self)
  then show ?thesis by (simp add: sint_uint)
qed

lemma unsync_test: "0 <s (s AND staUnsync) \<longleftrightarrow> s AND staUnsync \<noteq> 0"
proof -
  have "0 <s (s AND staUnsync) \<longleftrightarrow> 0 < uint (s AND staUnsync)"
    by (simp add: word_sless_alt sint_AND_staUnsync)
  also have "\<dots> \<longleftrightarrow> s AND staUnsync \<noteq> 0"
    by (simp add: word_neq_0_conv word_less_def)
  finally show ?thesis .
qed

text \<open>
  The magnitude test \<^verbatim>\<open>diff > 0\<close> on the wrapped difference: it holds when
  \<^verbatim>\<open>Esterror\<close> exceeds the threshold, and also when \<^verbatim>\<open>Esterror\<close> is so far below zero
  that the subtraction wraps around.
\<close>

lemma magnitude_test:
  "0 <s e - maxEstErrorUs \<longleftrightarrow>
     maxEstErrorUs <s e \<or> sint e - sint maxEstErrorUs < - (2 ^ 63)"
proof (cases "- (2 ^ 63) \<le> sint e - sint maxEstErrorUs")
  case True
  then show ?thesis
    by (simp add: word_sless_alt sint_diff_nowrap)
next
  case False
  then have w: "sint e - sint maxEstErrorUs < - (2 ^ 63)" by simp
  have "- (2 ^ 63) \<le> sint e" using sint_int64_range by blast
  then have "0 < sint e - sint maxEstErrorUs + 2 ^ 64"
    by (simp add: sint_maxEstErrorUs)
  with w show ?thesis
    by (simp add: word_sless_alt sint_diff_wrap)
qed

lemma magnitude_test_false:
  assumes "- (2 ^ 63) \<le> sint e - sint maxEstErrorUs" and "e \<le>s maxEstErrorUs"
  shows "\<not> 0 <s e - maxEstErrorUs"
proof -
  from assms(2) have "\<not> maxEstErrorUs <s e"
    by (simp add: word_sless_alt word_sle_eq)
  moreover from assms(1) have "\<not> sint e - sint maxEstErrorUs < - (2 ^ 63)"
    by simp
  ultimately show ?thesis
    unfolding magnitude_test by simp
qed

text \<open>
  \<^verbatim>\<open>time.Duration(diff) * time.Microsecond\<close> is exact while the count of nanoseconds
  fits an \<^verbatim>\<open>int64\<close>.
\<close>

lemma sint_Microsecond: "sint Microsecond = 1000"
  by (simp add: Microsecond_def Nanosecond_def)

lemma sint_mult_Microsecond:
  assumes "0 \<le> sint d" and "sint d \<le> 9223372036854775"
  shows "sint (d * Microsecond) = 1000 * sint d"
proof -
  have "sint (d * Microsecond) = signed_take_bit 63 (sint d * 1000)"
    by (simp add: sint_word_ariths sint_Microsecond)
  also have "\<dots> = sint d * 1000"
    using assms by (intro signed_take_bit_int_eq_self) simp_all
  finally show ?thesis by simp
qed

section \<open>\<^verbatim>\<open>Run\<close>, branch by branch\<close>

lemma messages_differ:
  "''Clock is less stable than allowed. Max estimated error exceeded by: '' @ x \<noteq>
   ''Clock is out of sync / in unsync state. Must be synchronized for proper operation.''"
  by simp

lemma Run_acquired:
  assumes "runAdjtimex t Timex_zero = (tBuf, n, None)"
  shows "Run t ctx cfg =
     (if 0 <s Esterror tBuf - maxEstErrorUs then
        (''Clock is less stable than allowed. Max estimated error exceeded by: ''
           @ Duration_String ((Esterror tBuf - maxEstErrorUs) * Microsecond),
         statusFailure, None)
      else if Status tBuf AND staUnsync \<noteq> 0 then
        (''Clock is out of sync / in unsync state. Must be synchronized for proper operation.'',
         statusFailure, None)
      else (''Clock is synced'', statusOK, None))"
  using assms by (simp add: Run_def Let_def unsync_test)

lemma Run_not_acquired:
  assumes "runAdjtimex t Timex_zero = (tBuf, n, Some e)"
  shows "Run t ctx cfg =
     ('''', statusUnknown, Some (withMessage e ''unable to make a system call adjtimex''))"
  using assms by (simp add: Run_def Wrap_def)

lemma runAdjtimex_stub:
  "runAdjtimex (NewTimeCheck (stubAdjtimex filled n err) name) buf = (filled, n, err)"
  by (simp add: NewTimeCheck_def stubAdjtimex_def)

lemma snapshot_fields: "Esterror (snapshot e s) = e" "Status (snapshot e s) = s"
  by (simp_all add: snapshot_def)

lemma Duration_String_100500us: "Duration_String 100500000 = ''100.5ms''"
  by code_simp

section \<open>The threshold\<close>

text \<open>
  Claim C1 gives the threshold \<^verbatim>\<open>maxEstErrorUs\<close> as 100,000 microseconds, the 100
  milliseconds of the comment above it. The constant is \<^verbatim>\<open>time.Microsecond * 100000\<close>,
  and \<^verbatim>\<open>time.Microsecond\<close> is 1000 (nanoseconds): the value is 100,000,000, which
  \<^verbatim>\<open>Run\<close> compares with \<^verbatim>\<open>Esterror\<close>, a count of microseconds. The threshold in
  force is 100 seconds, not 100,000 microseconds.
\<close>

theorem maxEstErrorUs_value:
  "sint maxEstErrorUs = 100000000 \<and> maxEstErrorUs \<noteq> 100000"
  by (simp add: maxEstErrorUs_numeral)

section \<open>The estimated error above the threshold\<close>

text \<open>
  Claim C2, as amended: for every snapshot whose \<^verbatim>\<open>Esterror\<close> exceeds the threshold,
  whatever its \<^verbatim>\<open>Status\<close>, \<^verbatim>\<open>Run\<close> returns the verdict Failure and no error, with the
  magnitude message: the fixed text followed by \<^verbatim>\<open>time.Duration(diff)*time.Microsecond\<close>
  written as a duration. The message is never the unsync message, and the result does
  not mention \<^verbatim>\<open>Status\<close>. The duration written is the excess itself whenever the excess
  is at most 9223372036854775 microseconds, the largest whose count of nanoseconds fits
  an \<^verbatim>\<open>int64\<close>.
\<close>

theorem Run_threshold_exceeded:
  assumes acq: "runAdjtimex t Timex_zero = (tBuf, n, None)"
    and exc: "maxEstErrorUs <s Esterror tBuf"
  shows "Run t ctx cfg =
           (''Clock is less stable than allowed. Max estimated error exceeded by: ''
              @ Duration_String ((Esterror tBuf - maxEstErrorUs) * Microsecond),
            statusFailure, None)
         \<and> fst (Run t ctx cfg) \<noteq>
             ''Clock is out of sync / in unsync state. Must be synchronized for proper operation.''
         \<and> (sint (Esterror tBuf) - sint maxEstErrorUs \<le> 9223372036854775 \<longrightarrow>
              sint ((Esterror tBuf - maxEstErrorUs) * Microsecond)
                = 1000 * (sint (Esterror tBuf) - sint maxEstErrorUs))"
proof -
  from exc have test: "0 <s Esterror tBuf - maxEstErrorUs"
    by (simp add: magnitude_test)
  have run: "Run t ctx cfg =
           (''Clock is less stable than allowed. Max estimated error exceeded by: ''
              @ Duration_String ((Esterror tBuf - maxEstErrorUs) * Microsecond),
            statusFailure, None)"
    using test by (simp add: Run_acquired [OF acq])
  from exc have pos: "0 < sint (Esterror tBuf) - sint maxEstErrorUs"
    by (simp add: word_sless_alt)
  then have d: "sint (Esterror tBuf - maxEstErrorUs) = sint (Esterror tBuf) - sint maxEstErrorUs"
    by (intro sint_diff_nowrap) simp
  have exact: "sint ((Esterror tBuf - maxEstErrorUs) * Microsecond)
                = 1000 * (sint (Esterror tBuf) - sint maxEstErrorUs)"
    if "sint (Esterror tBuf) - sint maxEstErrorUs \<le> 9223372036854775"
    using sint_mult_Microsecond [of "Esterror tBuf - maxEstErrorUs"] pos that
    by (simp add: d)
  show ?thesis
    using run exact by (simp add: messages_differ)
qed

text \<open>
  At \<^verbatim>\<open>Esterror\<close> = 100,100,500 with the unsync bit set, the excess of 100,500
  microseconds is reported as \<^verbatim>\<open>100.5ms\<close>.
\<close>

theorem Run_threshold_exceeded_witness:
  "maxEstErrorUs <s Esterror (snapshot 100100500 0x40)
   \<and> sint (Esterror (snapshot 100100500 0x40)) - sint maxEstErrorUs \<le> 9223372036854775
   \<and> Run (NewTimeCheck (stubAdjtimex (snapshot 100100500 0x40) 0 None) ''Check clock synchronization'') () ()
       = (''Clock is less stable than allowed. Max estimated error exceeded by: 100.5ms'',
          statusFailure, None)
   \<and> sint ((100100500 - maxEstErrorUs) * Microsecond) = 1000 * 100500"
proof -
  have exc: "maxEstErrorUs <s Esterror (snapshot 100100500 0x40)"
    by (simp add: snapshot_fields maxEstErrorUs_numeral)
  have small: "sint (Esterror (snapshot 100100500 0x40)) - sint maxEstErrorUs \<le> 9223372036854775"
    by (simp add: snapshot_fields maxEstErrorUs_numeral)
  from Run_threshold_exceeded [OF runAdjtimex_stub exc, of 0 "''Check clock synchronization''" "()" "()"]
  show ?thesis
    using exc small
    by (simp add: snapshot_fields maxEstErrorUs_numeral Microsecond_def Nanosecond_def
        Duration_String_100500us)
qed

text \<open>
  Claim C2 as stated fails at the largest \<^verbatim>\<open>Esterror\<close>: the excess is
  9223372036754775807 microseconds, its count of nanoseconds wraps around, and the
  message reports \<^verbatim>\<open>-1m40.000001s\<close>.
\<close>

theorem Run_threshold_exceeded_counterexample:
  "maxEstErrorUs <s Esterror (snapshot 9223372036854775807 0)
   \<and> sint (Esterror (snapshot 9223372036854775807 0)) - sint maxEstErrorUs = 9223372036754775807
   \<and> Run (NewTimeCheck (stubAdjtimex (snapshot 9223372036854775807 0) 0 None) ''Check clock synchronization'') () ()
       = (''Clock is less stable than allowed. Max estimated error exceeded by: -1m40.000001s'',
          statusFailure, None)"
  by code_simp

section \<open>The estimated error at or below the threshold\<close>

text \<open>
  Claim C3, as amended: for every snapshot whose \<^verbatim>\<open>Esterror\<close> is at most the threshold
  and not below \<open>-2^63 + maxEstErrorUs\<close> (the subtraction of the threshold does not wrap
  around), and whose unsync bit (0x0040) is clear, \<^verbatim>\<open>Run\<close> returns exactly
  \<^verbatim>\<open>("Clock is synced", statusOK, nil)\<close>.
\<close>

theorem Run_synced:
  assumes acq: "runAdjtimex t Timex_zero = (tBuf, n, None)"
    and nowrap: "- (2 ^ 63) \<le> sint (Esterror tBuf) - sint maxEstErrorUs"
    and le: "Esterror tBuf \<le>s maxEstErrorUs"
    and clear: "Status tBuf AND staUnsync = 0"
  shows "Run t ctx cfg = (''Clock is synced'', statusOK, None)"
proof -
  from nowrap le have "\<not> 0 <s Esterror tBuf - maxEstErrorUs"
    by (rule magnitude_test_false)
  with clear show ?thesis
    by (simp add: Run_acquired [OF acq])
qed

text \<open>The zero snapshot: no estimated error, no flag.\<close>

theorem Run_synced_witness:
  "- (2 ^ 63) \<le> sint (Esterror (snapshot 0 0)) - sint maxEstErrorUs
   \<and> Esterror (snapshot 0 0) \<le>s maxEstErrorUs
   \<and> Status (snapshot 0 0) AND staUnsync = 0
   \<and> Run (NewTimeCheck (stubAdjtimex (snapshot 0 0) 0 None) ''Check clock synchronization'') () ()
       = (''Clock is synced'', statusOK, None)"
proof -
  have nowrap: "- (2 ^ 63) \<le> sint (Esterror (snapshot 0 0)) - sint maxEstErrorUs"
    by (simp add: snapshot_fields sint_maxEstErrorUs)
  have le: "Esterror (snapshot 0 0) \<le>s maxEstErrorUs"
    by (simp add: snapshot_fields word_sle_eq sint_maxEstErrorUs)
  have clear: "Status (snapshot 0 0) AND staUnsync = 0"
    by (simp add: snapshot_fields)
  from Run_synced [OF runAdjtimex_stub nowrap le clear, of 0 "''Check clock synchronization''" "()" "()"]
  show ?thesis
    using nowrap le clear by simp
qed

text \<open>
  Claim C3 as stated fails at the least \<^verbatim>\<open>Esterror\<close>, \<open>-2^63\<close>, with no flag set: the
  difference wraps around to \<open>2^63 - 100000000\<close>, which is positive, and \<^verbatim>\<open>Run\<close>
  returns the magnitude failure.
\<close>

theorem Run_synced_counterexample:
  "Esterror (snapshot (- 9223372036854775808) 0) \<le>s maxEstErrorUs
   \<and> Status (snapshot (- 9223372036854775808) 0) AND staUnsync = 0
   \<and> Run (NewTimeCheck (stubAdjtimex (snapshot (- 9223372036854775808) 0) 0 None) ''Check clock synchronization'') () ()
       = (''Clock is less stable than allowed. Max estimated error exceeded by: -1m40s'',
          statusFailure, None)"
  by code_simp

text \<open>
  Claim C4, as amended: for every snapshot whose \<^verbatim>\<open>Esterror\<close> is at most the threshold
  and not below \<open>-2^63 + maxEstErrorUs\<close> (the subtraction of the threshold does not wrap
  around), and whose unsync bit (0x0040) is set, \<^verbatim>\<open>Run\<close> returns the verdict Failure
  with the fixed message that the clock is out of sync and must be synchronized for
  proper operation.
\<close>

theorem Run_unsync:
  assumes acq: "runAdjtimex t Timex_zero = (tBuf, n, None)"
    and nowrap: "- (2 ^ 63) \<le> sint (Esterror tBuf) - sint maxEstErrorUs"
    and le: "Esterror tBuf \<le>s maxEstErrorUs"
    and unsync: "Status tBuf AND staUnsync \<noteq> 0"
  shows "Run t ctx cfg =
           (''Clock is out of sync / in unsync state. Must be synchronized for proper operation.'',
            statusFailure, None)"
proof -
  from nowrap le have "\<not> 0 <s Esterror tBuf - maxEstErrorUs"
    by (rule magnitude_test_false)
  with unsync show ?thesis
    by (simp add: Run_acquired [OF acq])
qed

text \<open>No estimated error, and the status 0x0040.\<close>

theorem Run_unsync_witness:
  "- (2 ^ 63) \<le> sint (Esterror (snapshot 0 0x40)) - sint maxEstErrorUs
   \<and> Esterror (snapshot 0 0x40) \<le>s maxEstErrorUs
   \<and> Status (snapshot 0 0x40) AND staUnsync \<noteq> 0
   \<and> Run (NewTimeCheck (stubAdjtimex (snapshot 0 0x40) 0 None) ''Check clock synchronization'') () ()
       = (''Clock is out of sync / in unsync state. Must be synchronized for proper operation.'',
          statusFailure, None)"
proof -
  have nowrap: "- (2 ^ 63) \<le> sint (Esterror (snapshot 0 0x40)) - sint maxEstErrorUs"
    by (simp add: snapshot_fields sint_maxEstErrorUs)
  have le: "Esterror (snapshot 0 0x40) \<le>s maxEstErrorUs"
    by (simp add: snapshot_fields word_sle_eq sint_maxEstErrorUs)
  have unsync: "Status (snapshot 0 0x40) AND staUnsync \<noteq> 0"
    by (simp add: snapshot_fields staUnsync_def)
  from Run_unsync [OF runAdjtimex_stub nowrap le unsync, of 0 "''Check clock synchronization''" "()" "()"]
  show ?thesis
    using nowrap le unsync by simp
qed

text \<open>
  Claim C4 as stated fails at \<^verbatim>\<open>Esterror\<close> = \<open>-2^63 + 1\<close> with the unsync bit set: the
  difference wraps around to a positive value and \<^verbatim>\<open>Run\<close> returns the magnitude
  message, not the unsync message.
\<close>

theorem Run_unsync_counterexample:
  "Esterror (snapshot (- 9223372036854775807) 0x40) \<le>s maxEstErrorUs
   \<and> Status (snapshot (- 9223372036854775807) 0x40) AND staUnsync \<noteq> 0
   \<and> Run (NewTimeCheck (stubAdjtimex (snapshot (- 9223372036854775807) 0x40) 0 None) ''Check clock synchronization'') () ()
       = (''Clock is less stable than allowed. Max estimated error exceeded by: -1m39.999999s'',
          statusFailure, None)"
  by code_simp

section \<open>The system call fails\<close>

text \<open>
  Claim C5: if the injected call returns an error, \<^verbatim>\<open>Run\<close> returns the empty message,
  the verdict Unknown and the error wrapped: its text is the label
  \<^verbatim>\<open>unable to make a system call adjtimex\<close>, a colon and the text of the cause, and its
  cause is the cause of the call's error. Nothing of the buffer is looked at: the
  result is the same for every buffer the call leaves.
\<close>

theorem Run_acquisition_error:
  assumes "runAdjtimex t Timex_zero = (tBuf, n, Some e)"
  shows "Run t ctx cfg =
           ('''', statusUnknown, Some (withMessage e ''unable to make a system call adjtimex''))
         \<and> Error (withMessage e ''unable to make a system call adjtimex'')
             = ''unable to make a system call adjtimex: '' @ Error e
         \<and> Cause (withMessage e ''unable to make a system call adjtimex'') = Cause e"
  using assms by (simp add: Run_not_acquired)

text \<open>
  The call fails with \<^verbatim>\<open>permission denied\<close> and leaves a buffer that would fail both
  tests.
\<close>

theorem Run_acquisition_error_witness:
  "Run (NewTimeCheck (stubAdjtimex (snapshot 200000000 0x40) (- 1) (Some (errorString ''permission denied'')))
          ''Check clock synchronization'') () ()
     = ('''', statusUnknown,
        Some (withMessage (errorString ''permission denied'') ''unable to make a system call adjtimex''))
   \<and> Error (withMessage (errorString ''permission denied'') ''unable to make a system call adjtimex'')
       = ''unable to make a system call adjtimex: permission denied''
   \<and> Cause (withMessage (errorString ''permission denied'') ''unable to make a system call adjtimex'')
       = errorString ''permission denied''"
  using Run_acquisition_error [OF runAdjtimex_stub,
      of "snapshot 200000000 0x40" "- 1" "errorString ''permission denied''"
         "''Check clock synchronization''" "()" "()"]
  by simp

text \<open>
  Claim C6: \<^verbatim>\<open>Run\<close> returns an error exactly when its verdict is Unknown; whenever
  the call succeeds the error is \<^verbatim>\<open>nil\<close> and the verdict is not Unknown, for every
  snapshot, the two failures included.
\<close>

theorem Run_error_iff_unknown:
  "(snd (snd (Run t ctx cfg)) \<noteq> None) = (fst (snd (Run t ctx cfg)) = statusUnknown)
   \<and> (snd (snd (runAdjtimex t Timex_zero)) = None \<longrightarrow>
        snd (snd (Run t ctx cfg)) = None \<and> fst (snd (Run t ctx cfg)) \<noteq> statusUnknown)"
proof -
  obtain tBuf n err where r: "runAdjtimex t Timex_zero = (tBuf, n, err)"
    by (cases "runAdjtimex t Timex_zero") auto
  show ?thesis
  proof (cases err)
    case None
    with r show ?thesis by (simp add: Run_acquired)
  next
    case (Some e)
    with r show ?thesis by (simp add: Run_not_acquired)
  qed
qed

text \<open>A call that succeeds with a snapshot failing both tests.\<close>

theorem Run_error_iff_unknown_witness:
  "snd (snd (runAdjtimex (NewTimeCheck (stubAdjtimex (snapshot 200000000 0x40) 0 None) ''Check clock synchronization'') Timex_zero)) = None
   \<and> snd (snd (Run (NewTimeCheck (stubAdjtimex (snapshot 200000000 0x40) 0 None) ''Check clock synchronization'') () ())) = None
   \<and> fst (snd (Run (NewTimeCheck (stubAdjtimex (snapshot 200000000 0x40) 0 None) ''Check clock synchronization'') () ())) \<noteq> statusUnknown"
  using Run_error_iff_unknown
     [of "NewTimeCheck (stubAdjtimex (snapshot 200000000 0x40) 0 None) ''Check clock synchronization''" "()" "()"]
  by (simp add: runAdjtimex_stub)

section \<open>Boundaries\<close>

text \<open>
  Claim C7, as amended: for a snapshot whose \<^verbatim>\<open>Esterror\<close> equals the threshold, the
  magnitude test does not hold (the comparison is strict), and the verdict is that of
  the flag test: OK when the unsync bit is clear, Failure with the unsync message when
  it is set.
\<close>

theorem Run_at_threshold:
  assumes acq: "runAdjtimex t Timex_zero = (tBuf, n, None)"
    and eq: "Esterror tBuf = maxEstErrorUs"
  shows "\<not> 0 <s Esterror tBuf - maxEstErrorUs
         \<and> Run t ctx cfg =
             (if Status tBuf AND staUnsync = 0 then (''Clock is synced'', statusOK, None)
              else (''Clock is out of sync / in unsync state. Must be synchronized for proper operation.'',
                    statusFailure, None))"
proof -
  have "\<not> 0 <s Esterror tBuf - maxEstErrorUs"
    by (simp add: eq)
  then show ?thesis
    by (simp add: Run_acquired [OF acq])
qed

text \<open>The threshold itself, no flag set.\<close>

theorem Run_at_threshold_witness:
  "Esterror (snapshot maxEstErrorUs 0) = maxEstErrorUs
   \<and> Run (NewTimeCheck (stubAdjtimex (snapshot maxEstErrorUs 0) 0 None) ''Check clock synchronization'') () ()
       = (''Clock is synced'', statusOK, None)"
proof -
  have eq: "Esterror (snapshot maxEstErrorUs 0) = maxEstErrorUs"
    by (simp add: snapshot_fields)
  from Run_at_threshold [OF runAdjtimex_stub eq, of 0 "''Check clock synchronization''" "()" "()"]
  show ?thesis
    using eq by (simp add: snapshot_fields)
qed

text \<open>
  Claim C7 as stated fails at the threshold with the unsync bit set: the verdict is
  Failure, not OK.
\<close>

theorem Run_at_threshold_counterexample:
  "Esterror (snapshot maxEstErrorUs 0x40) = maxEstErrorUs
   \<and> Run (NewTimeCheck (stubAdjtimex (snapshot maxEstErrorUs 0x40) 0 None) ''Check clock synchronization'') () ()
       = (''Clock is out of sync / in unsync state. Must be synchronized for proper operation.'',
          statusFailure, None)"
  by code_simp

text \<open>
  Claim C8, as amended: for every snapshot whose \<^verbatim>\<open>Esterror\<close> is negative and not below
  \<open>-2^63 + maxEstErrorUs\<close> (the subtraction of the threshold does not wrap around), the
  difference is negative, the magnitude test does not hold, and the verdict is that of
  the flag test.
\<close>

theorem Run_negative_esterror:
  assumes acq: "runAdjtimex t Timex_zero = (tBuf, n, None)"
    and neg: "Esterror tBuf <s 0"
    and nowrap: "- (2 ^ 63) \<le> sint (Esterror tBuf) - sint maxEstErrorUs"
  shows "sint (Esterror tBuf - maxEstErrorUs) < 0
         \<and> \<not> 0 <s Esterror tBuf - maxEstErrorUs
         \<and> Run t ctx cfg =
             (if Status tBuf AND staUnsync \<noteq> 0 then
                (''Clock is out of sync / in unsync state. Must be synchronized for proper operation.'',
                 statusFailure, None)
              else (''Clock is synced'', statusOK, None))"
proof -
  from neg have s: "sint (Esterror tBuf) < 0"
    by (simp add: word_sless_alt)
  then have d: "sint (Esterror tBuf - maxEstErrorUs) < 0"
    by (simp add: sint_diff_nowrap [OF nowrap] sint_maxEstErrorUs)
  then have test: "\<not> 0 <s Esterror tBuf - maxEstErrorUs"
    by (simp add: word_sless_alt)
  from d test show ?thesis
    by (simp add: Run_acquired [OF acq])
qed

text \<open>An estimated error of -1 with the unsync bit set.\<close>

theorem Run_negative_esterror_witness:
  "Esterror (snapshot (- 1) 0x40) <s 0
   \<and> - (2 ^ 63) \<le> sint (Esterror (snapshot (- 1) 0x40)) - sint maxEstErrorUs
   \<and> sint (Esterror (snapshot (- 1) 0x40) - maxEstErrorUs) < 0
   \<and> Run (NewTimeCheck (stubAdjtimex (snapshot (- 1) 0x40) 0 None) ''Check clock synchronization'') () ()
       = (''Clock is out of sync / in unsync state. Must be synchronized for proper operation.'',
          statusFailure, None)"
proof -
  have neg: "Esterror (snapshot (- 1) 0x40) <s 0"
    by (simp add: snapshot_fields)
  have nowrap: "- (2 ^ 63) \<le> sint (Esterror (snapshot (- 1) 0x40)) - sint maxEstErrorUs"
    by (simp add: snapshot_fields sint_maxEstErrorUs)
  from Run_negative_esterror [OF runAdjtimex_stub neg nowrap, of 0 "''Check clock synchronization''" "()" "()"]
  show ?thesis
    using neg nowrap by (simp add: snapshot_fields staUnsync_def)
qed

text \<open>
  Claim C8 as stated fails at \<^verbatim>\<open>Esterror\<close> = \<open>-2^63 + 100000000 - 1000\<close>, a negative
  value: the difference wraps around to \<open>2^63 - 1000\<close>, the magnitude test holds, and
  the unsync flag that is set is not reported.
\<close>

theorem Run_negative_esterror_counterexample:
  "Esterror (snapshot (- 9223372036754776808) 0x40) <s 0
   \<and> 0 <s Esterror (snapshot (- 9223372036754776808) 0x40) - maxEstErrorUs
   \<and> Run (NewTimeCheck (stubAdjtimex (snapshot (- 9223372036754776808) 0x40) 0 None) ''Check clock synchronization'') () ()
       = (''Clock is less stable than allowed. Max estimated error exceeded by: -1ms'',
          statusFailure, None)"
  by code_simp

section \<open>An estimated error of 200 milliseconds\<close>

text \<open>
  Claim C9 expects the verdict Failure and an excess of 100ms for \<^verbatim>\<open>Esterror\<close> = 200000
  and \<^verbatim>\<open>Status\<close> = 0, taking the threshold to be 100000 microseconds. The threshold
  of the code is 100000000: the difference is negative and \<^verbatim>\<open>Run\<close> returns
  \<^verbatim>\<open>("Clock is synced", statusOK, nil)\<close>.
\<close>

theorem Run_scenario_B:
  "Run (NewTimeCheck (stubAdjtimex (snapshot 200000 0) 0 None) ''Check clock synchronization'') () ()
     = (''Clock is synced'', statusOK, None)"
  by code_simp

section \<open>What the result depends on\<close>

text \<open>
  Claim C10: the result of \<^verbatim>\<open>Run\<close> is determined by the error of the injected call and
  the fields \<^verbatim>\<open>Esterror\<close> and \<^verbatim>\<open>Status\<close> of the buffer it leaves. Two runs that agree
  on these return the same message, verdict and error, whatever the checks' names, the
  contexts, the configurations, the \<^verbatim>\<open>int\<close> the calls return and the other fields of
  the buffers.
\<close>

theorem Run_depends_on_three_values:
  assumes "runAdjtimex t1 Timex_zero = (tBuf1, n1, err)"
    and "runAdjtimex t2 Timex_zero = (tBuf2, n2, err)"
    and "Esterror tBuf1 = Esterror tBuf2"
    and "Status tBuf1 = Status tBuf2"
  shows "Run t1 ctx1 cfg1 = Run t2 ctx2 cfg2"
proof (cases err)
  case None
  with assms show ?thesis by (simp add: Run_acquired)
next
  case (Some e)
  with assms show ?thesis by (simp add: Run_not_acquired)
qed

text \<open>
  Two checks of different names, whose calls return different \<^verbatim>\<open>int\<close>s and buffers
  that differ in \<^verbatim>\<open>Offset\<close>, \<^verbatim>\<open>Maxerror\<close> and \<^verbatim>\<open>Tai\<close>, run with different contexts
  and configurations.
\<close>

theorem Run_depends_on_three_values_witness:
  "Esterror (snapshot 100100500 0x41) = Esterror ((snapshot 100100500 0x41)\<lparr>Offset := 7, Maxerror := 12, Tai := 37\<rparr>)
   \<and> Status (snapshot 100100500 0x41) = Status ((snapshot 100100500 0x41)\<lparr>Offset := 7, Maxerror := 12, Tai := 37\<rparr>)
   \<and> Run (NewTimeCheck (stubAdjtimex (snapshot 100100500 0x41) 0 None) ''Check clock synchronization'') () True
       = Run (NewTimeCheck (stubAdjtimex ((snapshot 100100500 0x41)\<lparr>Offset := 7, Maxerror := 12, Tai := 37\<rparr>) 5 None) ''time'')
           (3 :: nat) ''cfg''"
proof -
  have e: "Esterror (snapshot 100100500 0x41)
             = Esterror ((snapshot 100100500 0x41)\<lparr>Offset := 7, Maxerror := 12, Tai := 37\<rparr>)"
    by simp
  have s: "Status (snapshot 100100500 0x41)
             = Status ((snapshot 100100500 0x41)\<lparr>Offset := 7, Maxerror := 12, Tai := 37\<rparr>)"
    by simp
  have a1: "runAdjtimex (NewTimeCheck (stubAdjtimex (snapshot 100100500 0x41) 0 None)
                 ''Check clock synchronization'') Timex_zero
              = (snapshot 100100500 0x41, 0, None)"
    by (rule runAdjtimex_stub)
  have a2: "runAdjtimex (NewTimeCheck (stubAdjtimex
                 ((snapshot 100100500 0x41)\<lparr>Offset := 7, Maxerror := 12, Tai := 37\<rparr>) 5 None)
                 ''time'') Timex_zero
              = ((snapshot 100100500 0x41)\<lparr>Offset := 7, Maxerror := 12, Tai := 37\<rparr>, 5, None)"
    by (rule runAdjtimex_stub)
  from Run_depends_on_three_values [OF a1 a2 e s, of "()" True "3 :: nat" "''cfg''"]
  show ?thesis
    using e s by simp
qed

end
